theory Spec2Isabelle
  imports Complex_Main "HOL-Library.Sublist"
begin

section \<open>Numbers and their rendering\<close>

text \<open>
  Every TypeScript \<^verbatim>\<open>number\<close> of the agent (dollar amounts, basis points, millisecond
  clock readings) is modelled as a \<^typ>\<open>real\<close>: the model is the exact arithmetic the
  source code is written against, without IEEE rounding and without the value \<^verbatim>\<open>NaN\<close>.

  A division whose divisor is zero yields a non-finite value (\<^verbatim>\<open>NaN\<close>, \<^verbatim>\<open>Infinity\<close>)
  in the source; \<open>js_div\<close> makes that outcome explicit as \<open>None\<close> instead of using
  the total division of HOL, where \<open>x / 0 = 0\<close>.
\<close>

definition js_div :: "real \<Rightarrow> real \<Rightarrow> real option" where
  "js_div a b = (if b = 0 then None else Some (a / b))"

text \<open>
  The source renders numbers into messages with \<^verbatim>\<open>Number.prototype.toFixed\<close> and with
  template literals (\<^verbatim>\<open>${x}\<close>). Both are builtins of the language, not code of the
  repository: they are taken as parameters, bundled in a record.
\<close>

record numfmt =
  toFixed :: "real \<Rightarrow> nat \<Rightarrow> string"
  toStr :: "real \<Rightarrow> string"

text \<open>A rendering that prints every number as \<open>#\<close>, for concrete evaluations in which
  the digits of a message are immaterial.\<close>

definition hash_fmt :: numfmt where
  "hash_fmt = \<lparr>toFixed = (\<lambda>x d. ''#''), toStr = (\<lambda>x. ''#'')\<rparr>"

text \<open>\<^verbatim>\<open>Array.prototype.join\<close> on a list of strings.\<close>

fun join :: "string \<Rightarrow> string list \<Rightarrow> string" where
  "join sep [] = []"
| "join sep [x] = x"
| "join sep (x # y # ys) = x @ sep @ join sep (y # ys)"

section \<open>Risk engine (\<^verbatim>\<open>RiskEngine\<close> in aria-agent.ts)\<close>

record RiskPolicy =
  dailyLimitUSD :: real
  perTransactionLimitUSD :: real
  maxAutoApproveUSD :: real
  allowedTokens :: "string list"
  allowedChains :: "string list"
  maxSlippageBps :: real
  requireApprovalAboveUSD :: real
  allowedCategories :: "string list"
  cooldownMs :: real

text \<open>\<^verbatim>\<open>DEFAULT_POLICY\<close>, with the defaults the source uses when the environment
  variables are unset.\<close>

definition DEFAULT_POLICY :: RiskPolicy where
  "DEFAULT_POLICY = \<lparr>
     dailyLimitUSD = 50,
     perTransactionLimitUSD = 5,
     maxAutoApproveUSD = 1,
     allowedTokens = [''USDC'', ''ETH'', ''WETH'', ''AERO'', ''cbETH''],
     allowedChains = [''base'', ''base-sepolia'', ''ethereum'', ''arbitrum'', ''skale-nebula''],
     maxSlippageBps = 100,
     requireApprovalAboveUSD = 5,
     allowedCategories = [''market-data'', ''sentiment'', ''routing'', ''execution'', ''analytics''],
     cooldownMs = 1000 \<rparr>"

datatype riskLevel = Low | Medium | High | Critical

record budgetImpact =
  before :: real
  after :: real
  percentUsed :: "real option"

record RiskAssessment =
  action :: string
  estimatedCostUSD :: real
  riskLevel :: riskLevel
  approved :: bool
  reason :: string
  policyViolations :: "string list"
  budgetImpact :: budgetImpact

text \<open>The optional \<^verbatim>\<open>metadata\<close> argument of \<^verbatim>\<open>assess\<close>; each field is optional too.\<close>

record metadata =
  category :: "string option"
  token :: "string option"
  chain :: "string option"
  slippageBps :: "real option"

record actionLogEntry =
  log_timestamp :: real
  log_action :: string
  log_costUSD :: real
  log_approved :: bool

record RiskEngine =
  policy :: RiskPolicy
  dailySpent :: real
  lastActionTimestamp :: real
  actionLog :: "actionLogEntry list"

text \<open>\<^verbatim>\<open>new RiskEngine(policy)\<close>: nothing spent, no action yet.\<close>

definition newRiskEngine :: "RiskPolicy \<Rightarrow> RiskEngine" where
  "newRiskEngine p = \<lparr>policy = p, dailySpent = 0, lastActionTimestamp = 0, actionLog = []\<rparr>"

text \<open>
  \<^verbatim>\<open>metadata?.category && ...\<close>: the field is read through the optional chain and then
  tested for truthiness, so an absent argument, an absent field and the empty string all
  skip the check (for the number \<^verbatim>\<open>slippageBps\<close>: absent or \<open>0\<close>).
\<close>

definition truthyField :: "metadata option \<Rightarrow> (metadata \<Rightarrow> string option) \<Rightarrow> string option" where
  "truthyField md f =
     (case md of None \<Rightarrow> None
      | Some m \<Rightarrow> (case f m of None \<Rightarrow> None | Some s \<Rightarrow> if s = [] then None else Some s))"

definition truthySlippage :: "metadata option \<Rightarrow> real option" where
  "truthySlippage md =
     (case md of None \<Rightarrow> None
      | Some m \<Rightarrow> (case slippageBps m of None \<Rightarrow> None | Some s \<Rightarrow> if s = 0 then None else Some s))"

text \<open>
  The checks of \<^verbatim>\<open>assess\<close> in the order of the source. Each one reads and updates the pair
  of local variables \<^verbatim>\<open>violations\<close> and \<^verbatim>\<open>riskLevel\<close>; \<open>now\<close> is the value of
  \<^verbatim>\<open>Date.now()\<close> read by the cooldown check.
\<close>

definition checkDaily :: "numfmt \<Rightarrow> RiskEngine \<Rightarrow> real \<Rightarrow> string list \<times> riskLevel \<Rightarrow> string list \<times> riskLevel" where
  "checkDaily F e c s =
     (if dailySpent e + c > dailyLimitUSD (policy e)
      then (fst s @ [''Daily limit exceeded: $'' @ toFixed F (dailySpent e) 2 @ '' + $'' @ toFixed F c 2
                      @ '' > $'' @ toStr F (dailyLimitUSD (policy e))], Critical)
      else s)"

definition checkPerTx :: "numfmt \<Rightarrow> RiskEngine \<Rightarrow> real \<Rightarrow> string list \<times> riskLevel \<Rightarrow> string list \<times> riskLevel" where
  "checkPerTx F e c s =
     (if c > perTransactionLimitUSD (policy e)
      then (fst s @ [''Per-transaction limit exceeded: $'' @ toFixed F c 2
                      @ '' > $'' @ toStr F (perTransactionLimitUSD (policy e))], High)
      else s)"

definition checkCooldown :: "numfmt \<Rightarrow> RiskEngine \<Rightarrow> real \<Rightarrow> string list \<times> riskLevel \<Rightarrow> string list \<times> riskLevel" where
  "checkCooldown F e now s =
     (let timeSinceLastAction = now - lastActionTimestamp e
      in if timeSinceLastAction < cooldownMs (policy e) \<and> lastActionTimestamp e > 0
         then (fst s @ [''Cooldown not met: '' @ toStr F timeSinceLastAction @ ''ms < ''
                         @ toStr F (cooldownMs (policy e)) @ ''ms''], snd s)
         else s)"

definition checkAllowed :: "string \<Rightarrow> string option \<Rightarrow> string list \<Rightarrow> string list \<times> riskLevel \<Rightarrow> string list \<times> riskLevel" where
  "checkAllowed what v allowed s =
     (case v of
        None \<Rightarrow> s
      | Some x \<Rightarrow> if x \<notin> set allowed then (fst s @ [what @ '' not allowed: '' @ x], High) else s)"

definition checkSlippage :: "numfmt \<Rightarrow> RiskEngine \<Rightarrow> real option \<Rightarrow> string list \<times> riskLevel \<Rightarrow> string list \<times> riskLevel" where
  "checkSlippage F e v s =
     (case v of
        None \<Rightarrow> s
      | Some b \<Rightarrow>
          if b > maxSlippageBps (policy e)
          then (fst s @ [''Slippage too high: '' @ toStr F b @ ''bps > ''
                          @ toStr F (maxSlippageBps (policy e)) @ ''bps''],
                if snd s = Low then Medium else snd s)
          else s)"

definition costTier :: "RiskEngine \<Rightarrow> real \<Rightarrow> riskLevel \<Rightarrow> riskLevel" where
  "costTier e c r =
     (if r = Low
      then (if c > requireApprovalAboveUSD (policy e) then High
            else if c > maxAutoApproveUSD (policy e) then Medium
            else r)
      else r)"

definition runChecks :: "numfmt \<Rightarrow> RiskEngine \<Rightarrow> real \<Rightarrow> real \<Rightarrow> metadata option \<Rightarrow> string list \<times> riskLevel" where
  "runChecks F e now c md =
     checkSlippage F e (truthySlippage md)
       (checkAllowed ''Chain'' (truthyField md chain) (allowedChains (policy e))
         (checkAllowed ''Token'' (truthyField md token) (allowedTokens (policy e))
           (checkAllowed ''Category'' (truthyField md category) (allowedCategories (policy e))
             (checkCooldown F e now
               (checkPerTx F e c
                 (checkDaily F e c ([], Low)))))))"

definition assess :: "numfmt \<Rightarrow> RiskEngine \<Rightarrow> real \<Rightarrow> string \<Rightarrow> real \<Rightarrow> metadata option \<Rightarrow> RiskAssessment" where
  "assess F e now act c md =
     (let violations = fst (runChecks F e now c md);
          level = costTier e c (snd (runChecks F e now c md));
          approved0 = (violations = [] \<and> c \<le> maxAutoApproveUSD (policy e));
          needsApproval = (violations = [] \<and> c > maxAutoApproveUSD (policy e));
          rsn = (if violations \<noteq> [] then ''Blocked: '' @ join ''; '' violations
                 else if approved0
                 then ''Auto-approved: $'' @ toFixed F c 4 @ '' within auto-approve limit ($''
                        @ toStr F (maxAutoApproveUSD (policy e)) @ '')''
                 else ''Requires approval: $'' @ toFixed F c 2 @ '' exceeds auto-approve limit ($''
                        @ toStr F (maxAutoApproveUSD (policy e)) @ '')'')
      in \<lparr> action = act,
           estimatedCostUSD = c,
           riskLevel = level,
           approved = (approved0 \<or> needsApproval),
           reason = rsn,
           policyViolations = violations,
           budgetImpact = \<lparr> before = dailySpent e,
                            after = dailySpent e + c,
                            percentUsed = map_option (\<lambda>q. q * 100)
                                            (js_div (dailySpent e + c) (dailyLimitUSD (policy e))) \<rparr> \<rparr>)"

text \<open>
  \<^verbatim>\<open>recordAction\<close>: the only method that writes \<^verbatim>\<open>dailySpent\<close> and
  \<^verbatim>\<open>lastActionTimestamp\<close>; \<open>now\<close> is the clock reading of the call.
\<close>

definition recordAction :: "RiskEngine \<Rightarrow> real \<Rightarrow> string \<Rightarrow> real \<Rightarrow> bool \<Rightarrow> RiskEngine" where
  "recordAction e now act c ok =
     e \<lparr> dailySpent := (if ok then dailySpent e + c else dailySpent e),
         lastActionTimestamp := (if ok then now else lastActionTimestamp e),
         actionLog := actionLog e @ [\<lparr>log_timestamp = now, log_action = act, log_costUSD = c, log_approved = ok\<rparr>] \<rparr>"

text \<open>\<^verbatim>\<open>getBudgetStatus\<close> (the fields derived from the log are left out).\<close>

record budgetStatus =
  dailyLimit :: real
  spent :: real
  remaining :: real
  statusPercentUsed :: "real option"

definition getBudgetStatus :: "RiskEngine \<Rightarrow> budgetStatus" where
  "getBudgetStatus e =
     \<lparr> dailyLimit = dailyLimitUSD (policy e),
       spent = dailySpent e,
       remaining = dailyLimitUSD (policy e) - dailySpent e,
       statusPercentUsed = map_option (\<lambda>q. q * 100) (js_div (dailySpent e) (dailyLimitUSD (policy e))) \<rparr>"

subsection \<open>A caller that records what the engine cleared\<close>




section \<open>Composite sentiment (\<^verbatim>\<open>fetchSentiment\<close> in sentiment.ts)\<close>

text \<open>
  The aggregation is the tail of \<^verbatim>\<open>fetchSentiment\<close>, from the weight table to the label;
  it reads the array \<^verbatim>\<open>signals\<close> built from the three providers. The opaque
  \<^verbatim>\<open>details\<close> of a signal are left out.
\<close>

record SentimentSignal =
  source :: string
  score :: real
  sig_label :: string
  confidence :: real


definition weights :: "(string \<times> real) list" where
  "weights = [(''news'', 0.35), (''fear-greed-index'', 0.30), (''onchain'', 0.35)]"

text \<open>
  \<^verbatim>\<open>weights[sig.source] || 0.33\<close>: an absent (or zero) entry falls back to 0.33. The
  lookup is in the three entries of the table; the names that every object inherits
  (\<^verbatim>\<open>constructor\<close>, \<^verbatim>\<open>toString\<close> and the like) are not sources that \<^verbatim>\<open>fetchSentiment\<close>
  produces, and the model does not treat them specially.
\<close>

definition weightOf :: "string \<Rightarrow> real" where
  "weightOf src = (case map_of weights src of None \<Rightarrow> 0.33 | Some w \<Rightarrow> if w = 0 then 0.33 else w)"

text \<open>The \<^verbatim>\<open>for\<close> loop; the accumulator is \<open>(totalWeight, weightedSum)\<close>.\<close>

fun accumulate :: "SentimentSignal list \<Rightarrow> real \<times> real \<Rightarrow> real \<times> real" where
  "accumulate [] acc = acc"
| "accumulate (sg # sigs) acc =
     accumulate sigs (fst acc + weightOf (source sg) * confidence sg,
                      snd acc + score sg * weightOf (source sg) * confidence sg)"

record composite =
  compositeScore :: real
  compositeConfidence :: real
  label :: string

definition labelOf :: "real \<Rightarrow> string" where
  "labelOf sc = (if sc > 0.25 then ''bullish'' else if sc < - 0.25 then ''bearish'' else ''neutral'')"

text \<open>
  The three local variables \<^verbatim>\<open>compositeScore\<close>, \<^verbatim>\<open>compositeConfidence\<close> and \<^verbatim>\<open>label\<close>.
  Both divisions go through \<open>js_div\<close>: the result is \<open>None\<close> if a division by zero is
  ever evaluated.
\<close>

definition aggregate :: "SentimentSignal list \<Rightarrow> composite option" where
  "aggregate signals =
     (let totalWeight = fst (accumulate signals (0, 0));
          weightedSum = snd (accumulate signals (0, 0))
      in case (if totalWeight > 0 then js_div weightedSum totalWeight else Some 0) of
           None \<Rightarrow> None
         | Some sc \<Rightarrow>
             (case (if totalWeight > 0 then js_div totalWeight (real (length signals)) else Some 0) of
                None \<Rightarrow> None
              | Some cf \<Rightarrow> Some \<lparr>compositeScore = sc, compositeConfidence = cf, label = labelOf sc\<rparr>))"

subsection \<open>The aggregation as the specification words it\<close>

definition spec_weight :: "string \<Rightarrow> real" where
  "spec_weight src =
     (if src = ''news'' then 0.35
      else if src = ''fear-greed-index'' then 0.30
      else if src = ''onchain'' then 0.35
      else 0.33)"

definition spec_weightedSum :: "SentimentSignal list \<Rightarrow> real" where
  "spec_weightedSum signals = sum_list (map (\<lambda>s. score s * spec_weight (source s) * confidence s) signals)"

definition spec_totalWeight :: "SentimentSignal list \<Rightarrow> real" where
  "spec_totalWeight signals = sum_list (map (\<lambda>s. spec_weight (source s) * confidence s) signals)"


definition spec_compositeConfidence :: "SentimentSignal list \<Rightarrow> real option" where
  "spec_compositeConfidence signals = js_div (spec_totalWeight signals) (real (length signals))"

section \<open>Values the agent reads out of parsed JSON\<close>

text \<open>
  The plan, the decision and the report are typed \<^verbatim>\<open>any\<close>: they are whatever
  \<^verbatim>\<open>JSON.parse\<close> returned, and every later access (\<^verbatim>\<open>plan.plan\<close>, \<^verbatim>\<open>s.tool\<close>,
  \<^verbatim>\<open>x || y\<close>, \<^verbatim>\<open>.map\<close>, \<^verbatim>\<open>.toFixed\<close>) is resolved at run time. The model keeps the
  values as JSON values; \<^verbatim>\<open>undefined\<close> is \<open>None\<close>.
\<close>

datatype json =
  JNull
| JBool bool
| JNum real
| JStr string
| JArr "json list"
| JObj "(string \<times> json) list"

datatype error =
  TypeError
| ToolNotFound "json option"
| Thrown string

text \<open>
  Property access \<^verbatim>\<open>v.k\<close>, for the keys the agent reads (none of them is a builtin
  property of strings, numbers, booleans or arrays): a \<^verbatim>\<open>TypeError\<close> on \<^verbatim>\<open>null\<close> and
  \<^verbatim>\<open>undefined\<close>, the member of an object (the last one, if the text repeated the key),
  \<^verbatim>\<open>undefined\<close> otherwise.
\<close>

fun getProp :: "json option \<Rightarrow> string \<Rightarrow> error + json option" where
  "getProp None k = Inl TypeError"
| "getProp (Some JNull) k = Inl TypeError"
| "getProp (Some (JObj kvs)) k = Inr (map_of (rev kvs) k)"
| "getProp (Some v) k = Inr None"

fun truthy :: "json option \<Rightarrow> bool" where
  "truthy None = False"
| "truthy (Some JNull) = False"
| "truthy (Some (JBool b)) = b"
| "truthy (Some (JNum n)) = (n \<noteq> 0)"
| "truthy (Some (JStr s)) = (s \<noteq> [])"
| "truthy (Some (JArr xs)) = True"
| "truthy (Some (JObj kvs)) = True"

text \<open>\<^verbatim>\<open>a || b\<close>.\<close>

definition orElse :: "json option \<Rightarrow> json option \<Rightarrow> json option" where
  "orElse a b = (if truthy a then a else b)"

text \<open>Mapping a function that may throw over an array: the first exception ends it.\<close>

fun mapE :: "('a \<Rightarrow> error + 'b) \<Rightarrow> 'a list \<Rightarrow> error + 'b list" where
  "mapE f [] = Inr []"
| "mapE f (x # xs) =
     (case f x of
        Inl err \<Rightarrow> Inl err
      | Inr y \<Rightarrow> (case mapE f xs of Inl err \<Rightarrow> Inl err | Inr ys \<Rightarrow> Inr (y # ys)))"

text \<open>
  \<^verbatim>\<open>plan.plan || []\<close> as the array the callers iterate. A truthy value that is not an
  array has no \<^verbatim>\<open>.map\<close>, so the call \<^verbatim>\<open>(plan.plan || []).map(...)\<close> of \<^verbatim>\<open>phasePlan\<close>
  throws a \<^verbatim>\<open>TypeError\<close> on it.
\<close>

definition planSteps :: "json \<Rightarrow> error + json list" where
  "planSteps plan =
     (case getProp (Some plan) ''plan'' of
        Inl err \<Rightarrow> Inl err
      | Inr pl \<Rightarrow>
          if \<not> truthy pl then Inr []
          else (case pl of Some (JArr xs) \<Rightarrow> Inr xs | _ \<Rightarrow> Inl TypeError))"

text \<open>\<^verbatim>\<open>(plan.plan || []).map((s) => s.tool)\<close>.\<close>

definition planToolIds :: "json \<Rightarrow> error + json option list" where
  "planToolIds plan =
     (case planSteps plan of
        Inl err \<Rightarrow> Inl err
      | Inr xs \<Rightarrow> mapE (\<lambda>s. getProp (Some s) ''tool'') xs)"

text \<open>The outcome of a call to the language model: the text returned, and what
  \<^verbatim>\<open>JSON.parse\<close> makes of that text (\<open>None\<close> when it throws).\<close>

record llmResponse =
  responseText :: string
  parsed :: "json option"

section \<open>Audit logger (audit-logger.ts)\<close>

text \<open>
  Of a receipt, a workflow step and a run the model keeps the fields that the agent
  reads or that tell what happened; identifiers of the wire protocol, clock readings and
  durations are left out, and so are the log lines and dashboard events, which nothing
  reads back.
\<close>

datatype receiptStatus = ReceiptPending | ReceiptSettled | ReceiptFailed

record PaymentReceipt =
  receipt_tool :: string
  amountUSD :: real
  receipt_status :: receiptStatus

record AuditLogger =
  receipts :: "PaymentReceipt list"
  riskAssessments :: "RiskAssessment list"

definition newAuditLogger :: AuditLogger where
  "newAuditLogger = \<lparr>receipts = [], riskAssessments = []\<rparr>"

definition logPayment :: "AuditLogger \<Rightarrow> PaymentReceipt \<Rightarrow> AuditLogger" where
  "logPayment lg r = lg \<lparr>receipts := receipts lg @ [r]\<rparr>"

definition logRiskAssessment :: "AuditLogger \<Rightarrow> RiskAssessment \<Rightarrow> AuditLogger" where
  "logRiskAssessment lg a = lg \<lparr>riskAssessments := riskAssessments lg @ [a]\<rparr>"

text \<open>\<^verbatim>\<open>receipts.reduce((s, r) => s + r.amountUSD, 0)\<close>.\<close>

definition totalSpentUSD :: "PaymentReceipt list \<Rightarrow> real" where
  "totalSpentUSD rs = foldl (\<lambda>s r. s + amountUSD r) 0 rs"

text \<open>The same sum over the receipts whose status is \<^verbatim>\<open>settled\<close>.\<close>

definition settledSpentUSD :: "PaymentReceipt list \<Rightarrow> real" where
  "settledSpentUSD rs = totalSpentUSD (filter (\<lambda>r. receipt_status r = ReceiptSettled) rs)"

section \<open>Tool executor (tool-executor.ts)\<close>

text \<open>An entry of the catalogue, with the fields the executor reads. The catalogue is
  taken to be typed as declared: identifiers and categories are strings, prices numbers.\<close>

record PaidTool =
  tool_id :: string
  tool_name :: string
  endpoint :: string
  priceUSD :: real
  tool_category :: string

datatype stepType = Discover | Reason | Authorize | Pay | Execute | Settle | Report

datatype stepStatus = Pending | Running | Success | Failed | Skipped

record WorkflowStep =
  stepId :: string
  stepType :: stepType
  tool :: "json option"
  stepOutput :: "json option"
  costUSD :: "real option"
  status :: stepStatus
  reasoning :: "json option"
  error :: "string option"

record ToolExecutor =
  toolRegistry :: "PaidTool list"
  riskEngine :: RiskEngine
  logger :: AuditLogger

text \<open>
  What the outside world contributes to one call of \<^verbatim>\<open>executeTool\<close>: the identifier
  drawn for the step, the clock readings, whether the paid request went through (any
  exception of the wallet, a response that is not \<^verbatim>\<open>ok\<close> or a body that is not JSON ends
  in the \<^verbatim>\<open>catch\<close> block with its message), and what the payment callbacks reported.
\<close>

datatype fetchOutcome = FetchThrows string | FetchOk json

record callEnv =
  uuid :: string
  assessedAt :: real
  outcome :: fetchOutcome
  costEstimate :: "real option"
  settlementSuccess :: "bool option"
  recordedAt :: real

text \<open>\<^verbatim>\<open>toolRegistry.find((t) => t.id === toolId)\<close>: strict equality with the string
  \<^verbatim>\<open>t.id\<close>, which no value other than that string satisfies.\<close>

definition findTool :: "PaidTool list \<Rightarrow> json option \<Rightarrow> PaidTool option" where
  "findTool reg toolId = find (\<lambda>t. toolId = Some (JStr (tool_id t))) reg"

definition estimateWorkflowCost :: "PaidTool list \<Rightarrow> json option list \<Rightarrow> real" where
  "estimateWorkflowCost reg toolIds =
     foldl (\<lambda>sum i. sum + (case findTool reg i of None \<Rightarrow> 0 | Some t \<Rightarrow> priceUSD t)) 0 toolIds"

text \<open>
  \<^verbatim>\<open>executeTool\<close>. The result is \<open>Inl\<close> for the one \<^verbatim>\<open>throw\<close> outside the
  \<^verbatim>\<open>try\<close> block, and otherwise the returned step and data with the updated executor
  (its risk engine and logger are the objects the agent holds too). The statements between
  the assessment and the \<^verbatim>\<open>try\<close> block build the request URL from the endpoint of the
  tool and the planned parameters; they are taken not to throw. The \<^verbatim>\<open>reasoning\<close> of a
  successful step is kept up to the amount; the source appends the protocol and the risk
  level.
\<close>

text \<open>The pre-flight assessment of a registered tool: its listed price, its category.\<close>

definition assessTool :: "numfmt \<Rightarrow> RiskEngine \<Rightarrow> PaidTool \<Rightarrow> callEnv \<Rightarrow> RiskAssessment" where
  "assessTool F e t env =
     assess F e (assessedAt env) (''tool:'' @ tool_id t) (priceUSD t)
       (Some \<lparr>category = Some (tool_category t), token = None, chain = None, slippageBps = None\<rparr>)"

definition executeTool ::
  "numfmt \<Rightarrow> ToolExecutor \<Rightarrow> json option \<Rightarrow> callEnv \<Rightarrow> error + ((WorkflowStep \<times> json option) \<times> ToolExecutor)" where
  "executeTool F x toolId env =
     (case findTool (toolRegistry x) toolId of
        None \<Rightarrow> Inl (ToolNotFound toolId)
      | Some t \<Rightarrow>
          (let assessment = assessTool F (riskEngine x) t env;
               lg = logRiskAssessment (logger x) assessment
           in if \<not> approved assessment
              then Inr ((\<lparr> stepId = uuid env, stepType = Pay, tool = toolId, stepOutput = None,
                           costUSD = Some (priceUSD t), status = Failed,
                           reasoning = Some (JStr (reason assessment)),
                           error = Some (''Risk policy violation: '' @ join ''; '' (policyViolations assessment)) \<rparr>,
                         None),
                        x \<lparr>logger := lg\<rparr>)
              else (case outcome env of
                      FetchThrows msg \<Rightarrow>
                        Inr ((\<lparr> stepId = uuid env, stepType = Execute, tool = toolId, stepOutput = None,
                                 costUSD = Some 0, status = Failed, reasoning = None,
                                 error = Some msg \<rparr>,
                               None),
                              x \<lparr>logger := lg\<rparr>)
                    | FetchOk data \<Rightarrow>
                        (let actualCostUSD = (case costEstimate env of Some est \<Rightarrow> est | None \<Rightarrow> priceUSD t);
                             engine = recordAction (riskEngine x) (recordedAt env) (''tool:'' @ tool_id t)
                                        actualCostUSD True;
                             receipt = \<lparr> receipt_tool = tool_id t, amountUSD = actualCostUSD,
                                         receipt_status = (if settlementSuccess env \<noteq> Some False
                                                           then ReceiptSettled else ReceiptFailed) \<rparr>
                         in Inr ((\<lparr> stepId = uuid env, stepType = Execute, tool = toolId, stepOutput = Some data,
                                     costUSD = Some actualCostUSD, status = Success,
                                     reasoning = Some (JStr (''Called '' @ tool_name t @ '' for $''
                                                   @ toFixed F actualCostUSD 4)),
                                     error = None \<rparr>,
                                   Some data),
                                  x \<lparr>riskEngine := engine, logger := logPayment lg receipt\<rparr>)))))"

section \<open>The agent (\<^verbatim>\<open>AriaAgent\<close> in aria-agent.ts)\<close>

datatype runStatus = RunRunning | RunCompleted | RunFailed

record WorkflowResult =
  summary :: "json option"
  recommendation :: "json option"
  result_receipts :: "PaymentReceipt list"

record WorkflowRun =
  objective :: string
  runStatus :: runStatus
  steps :: "WorkflowStep list"
  totalCostUSD :: real
  budgetUSD :: real
  budgetRemainingUSD :: real
  result :: "WorkflowResult option"

text \<open>The agent once \<^verbatim>\<open>run\<close> has set \<^verbatim>\<open>currentRun\<close>. The risk engine and the logger
  live in the executor and outlast a run.\<close>

record AriaAgent =
  toolExecutor :: ToolExecutor
  currentRun :: WorkflowRun

text \<open>
  What the outside world contributes to a run: the catalogue the merchant serves (or the
  exception of the request), the answers of the language model (or the exception of
  \<^verbatim>\<open>callLLM\<close>), the message of the exception that ended the mandate requests, if one did,
  and the environment of each call of \<^verbatim>\<open>executeTool\<close>. The dashboard hook \<^verbatim>\<open>onEvent\<close>
  is taken not to throw.
\<close>

record world =
  discovered :: "error + PaidTool list"
  planLLM :: "error + llmResponse"
  mandateError :: "string option"
  execEnvs :: "nat \<Rightarrow> callEnv"
  decideLLM :: "error + llmResponse"
  tradeEnv :: callEnv
  reportLLM :: "error + llmResponse"

definition startRun :: "ToolExecutor \<Rightarrow> string \<Rightarrow> real \<Rightarrow> AriaAgent" where
  "startRun x obj budget =
     \<lparr> toolExecutor = x,
       currentRun = \<lparr> objective = obj, runStatus = RunRunning, steps = [], totalCostUSD = 0,
                      budgetUSD = budget, budgetRemainingUSD = budget, result = None \<rparr> \<rparr>"

text \<open>\<^verbatim>\<open>this.currentRun!.steps.push(step)\<close>.\<close>

definition pushStep :: "AriaAgent \<Rightarrow> WorkflowStep \<Rightarrow> AriaAgent" where
  "pushStep ag st = ag \<lparr>currentRun := (currentRun ag) \<lparr>steps := steps (currentRun ag) @ [st]\<rparr>\<rparr>"

definition phaseDiscover :: "numfmt \<Rightarrow> world \<Rightarrow> AriaAgent \<Rightarrow> error + AriaAgent" where
  "phaseDiscover F w ag =
     (case discovered w of
        Inl err \<Rightarrow> Inl err
      | Inr tools \<Rightarrow>
          Inr (pushStep (ag \<lparr>toolExecutor := (toolExecutor ag) \<lparr>toolRegistry := tools\<rparr>\<rparr>)
                 \<lparr> stepId = ''discover'', stepType = Discover, tool = None,
                   stepOutput = Some (JObj [(''toolCount'', JNum (real (length tools))),
                                            (''tools'', JArr (map (\<lambda>t. JStr (tool_id t)) tools))]),
                   costUSD = None, status = Success,
                   reasoning = Some (JStr (''Discovered '' @ toStr F (real (length tools))
                                            @ '' paid tools from merchant server'')),
                   error = None \<rparr>))"

text \<open>The plan that the \<^verbatim>\<open>catch\<close> block of \<^verbatim>\<open>phasePlan\<close> builds around the raw text.\<close>

definition fallbackPlan :: "string \<Rightarrow> json" where
  "fallbackPlan planResponse =
     JObj [(''plan'', JArr []), (''estimatedCostUSD'', JNum 0), (''reasoning'', JStr planResponse)]"

text \<open>\<^verbatim>\<open>estimatedCost.toFixed(4)\<close>: a method of numbers only.\<close>

definition callToFixed :: "json option \<Rightarrow> error + unit" where
  "callToFixed v = (case v of Some (JNum n) \<Rightarrow> Inr () | _ \<Rightarrow> Inl TypeError)"

definition phasePlan :: "numfmt \<Rightarrow> world \<Rightarrow> AriaAgent \<Rightarrow> error + (json \<times> AriaAgent)" where
  "phasePlan F w ag =
     (case planLLM w of
        Inl err \<Rightarrow> Inl err
      | Inr planResponse \<Rightarrow>
          (let plan = (case parsed planResponse of
                         Some j \<Rightarrow> j
                       | None \<Rightarrow> fallbackPlan (responseText planResponse))
           in case getProp (Some plan) ''estimatedCostUSD'' of
                Inl err \<Rightarrow> Inl err
              | Inr ec \<Rightarrow>
                  (case (if truthy ec then Inr ec
                         else (case planToolIds plan of
                                 Inl err \<Rightarrow> Inl err
                               | Inr ids \<Rightarrow>
                                   Inr (Some (JNum (estimateWorkflowCost (toolRegistry (toolExecutor ag)) ids))))) of
                     Inl err \<Rightarrow> Inl err
                   | Inr estimatedCost \<Rightarrow>
                       (case callToFixed estimatedCost of
                          Inl err \<Rightarrow> Inl err
                        | Inr u \<Rightarrow>
                            (case planToolIds plan of
                               Inl err \<Rightarrow> Inl err
                             | Inr ids \<Rightarrow>
                                 (case getProp (Some plan) ''reasoning'' of
                                    Inl err \<Rightarrow> Inl err
                                  | Inr rs \<Rightarrow>
                                      Inr (plan,
                                           pushStep ag
                                             \<lparr> stepId = ''plan'', stepType = Reason, tool = None,
                                               stepOutput = Some plan, costUSD = Some 0,
                                               status = Success, reasoning = rs, error = None \<rparr>)))))))"

text \<open>
  \<^verbatim>\<open>phaseAuthorize\<close>. The first two statements stand before the \<^verbatim>\<open>try\<close>; everything
  after them is caught. The result tells whether a mandate was obtained.
\<close>

definition phaseAuthorize :: "numfmt \<Rightarrow> world \<Rightarrow> json \<Rightarrow> AriaAgent \<Rightarrow> error + (bool \<times> AriaAgent)" where
  "phaseAuthorize F w plan ag =
     (case getProp (Some plan) ''estimatedCostUSD'' of
        Inl err \<Rightarrow> Inl err
      | Inr ec \<Rightarrow>
          (case planToolIds plan of
             Inl err \<Rightarrow> Inl err
           | Inr toolIds \<Rightarrow>
               (case (mandateError w, orElse ec (Some (JNum 0.5))) of
                  (None, Some (JNum estimatedCost)) \<Rightarrow>
                    Inr (True,
                         pushStep ag
                           \<lparr> stepId = ''authorize'', stepType = Authorize, tool = None, stepOutput = None,
                             costUSD = None, status = Success,
                             reasoning = Some (JStr (''AP2 mandate created and authorized for $''
                                           @ toFixed F estimatedCost 2 @ '' budget across ''
                                           @ toStr F (real (length toolIds)) @ '' tools'')),
                             error = None \<rparr>)
                | (None, _) \<Rightarrow>
                    Inr (False,
                         pushStep ag
                           \<lparr> stepId = ''authorize'', stepType = Authorize, tool = None, stepOutput = None,
                             costUSD = None, status = Failed,
                             reasoning = Some (JStr ''AP2 mandate failed - proceeding with direct x402 payments''),
                             error = Some ''estimatedCost.toFixed is not a function'' \<rparr>)
                | (Some msg, _) \<Rightarrow>
                    Inr (False,
                         pushStep ag
                           \<lparr> stepId = ''authorize'', stepType = Authorize, tool = None, stepOutput = None,
                             costUSD = None, status = Failed,
                             reasoning = Some (JStr ''AP2 mandate failed - proceeding with direct x402 payments''),
                             error = Some msg \<rparr>))))"

text \<open>\<^verbatim>\<open>step.costUSD || 0\<close>.\<close>

definition stepCost :: "WorkflowStep \<Rightarrow> real" where
  "stepCost st = (case costUSD st of Some c \<Rightarrow> c | None \<Rightarrow> 0)"

text \<open>
  The loop of \<^verbatim>\<open>phaseExecute\<close>, from index \<open>i\<close> over the remaining planned steps. An
  exception leaves the loop with the agent as the earlier iterations left it.
\<close>

fun executeLoop ::
  "numfmt \<Rightarrow> world \<Rightarrow> nat \<Rightarrow> json list \<Rightarrow> AriaAgent \<times> (json option \<times> json option \<times> WorkflowStep) list
     \<Rightarrow> (error \<times> AriaAgent) + (AriaAgent \<times> (json option \<times> json option \<times> WorkflowStep) list)" where
  "executeLoop F w i [] acc = Inr acc"
| "executeLoop F w i (planned # rest) acc =
     (case getProp (Some planned) ''tool'' of
        Inl err \<Rightarrow> Inl (err, fst acc)
      | Inr toolId \<Rightarrow>
          (case executeTool F (toolExecutor (fst acc)) toolId (execEnvs w i) of
             Inl err \<Rightarrow> Inl (err, fst acc)
           | Inr r \<Rightarrow>
               (let step = fst (fst r);
                    data = snd (fst r);
                    total = totalCostUSD (currentRun (fst acc)) + stepCost step
                in executeLoop F w (Suc i) rest
                     (\<lparr> toolExecutor = snd r,
                        currentRun = (currentRun (fst acc))
                          \<lparr> steps := steps (currentRun (fst acc)) @ [step],
                            totalCostUSD := total,
                            budgetRemainingUSD := budgetUSD (currentRun (fst acc)) - total \<rparr> \<rparr>,
                      snd acc @ [(toolId, data, step)]))))"

text \<open>
  \<^verbatim>\<open>phaseExecute\<close>. The mandate only selects the protocol hint, which the model does not
  carry. Where \<^verbatim>\<open>plan.plan\<close> is a truthy value that is not an array, \<open>planSteps\<close>
  reports the \<^verbatim>\<open>TypeError\<close> that \<^verbatim>\<open>phasePlan\<close> has raised on the same value before.
\<close>

definition phaseExecute ::
  "numfmt \<Rightarrow> world \<Rightarrow> json \<Rightarrow> AriaAgent
     \<Rightarrow> (error \<times> AriaAgent) + (AriaAgent \<times> (json option \<times> json option \<times> WorkflowStep) list)" where
  "phaseExecute F w plan ag =
     (case planSteps plan of
        Inl err \<Rightarrow> Inl (err, ag)
      | Inr planned \<Rightarrow> executeLoop F w 0 planned (ag, []))"

definition fallbackDecision :: "string \<Rightarrow> json" where
  "fallbackDecision decisionResponse =
     JObj [(''decision'', JStr ''hold''), (''confidence'', JNum 0.5), (''reasoning'', JStr decisionResponse),
           (''action'', JNull), (''riskFactors'', JArr [])]"

definition phaseDecide :: "world \<Rightarrow> AriaAgent \<Rightarrow> error + (json \<times> AriaAgent)" where
  "phaseDecide w ag =
     (case decideLLM w of
        Inl err \<Rightarrow> Inl err
      | Inr decisionResponse \<Rightarrow>
          (let decision = (case parsed decisionResponse of
                             Some j \<Rightarrow> j
                           | None \<Rightarrow> fallbackDecision (responseText decisionResponse))
           in case getProp (Some decision) ''reasoning'' of
                Inl err \<Rightarrow> Inl err
              | Inr rs \<Rightarrow>
                  Inr (decision,
                       pushStep ag
                         \<lparr> stepId = ''decide'', stepType = Reason, tool = None, stepOutput = Some decision,
                           costUSD = None, status = Success, reasoning = rs, error = None \<rparr>)))"

text \<open>\<^verbatim>\<open>phaseTradeExecute\<close>: the cost of the step is added to the total, the remaining
  budget is not recomputed here.\<close>

definition phaseTradeExecute :: "numfmt \<Rightarrow> world \<Rightarrow> json \<Rightarrow> AriaAgent \<Rightarrow> error + AriaAgent" where
  "phaseTradeExecute F w decision ag =
     (case getProp (Some decision) ''action'' of
        Inl err \<Rightarrow> Inl err
      | Inr act \<Rightarrow>
          if \<not> truthy act then Inr ag
          else (case getProp act ''tool'' of
                  Inl err \<Rightarrow> Inl err
                | Inr toolId \<Rightarrow>
                    (case executeTool F (toolExecutor ag) toolId (tradeEnv w) of
                       Inl err \<Rightarrow> Inl err
                     | Inr r \<Rightarrow>
                         Inr \<lparr> toolExecutor = snd r,
                               currentRun = (currentRun ag)
                                 \<lparr> steps := steps (currentRun ag) @ [fst (fst r)],
                                   totalCostUSD := totalCostUSD (currentRun ag) + stepCost (fst (fst r)) \<rparr> \<rparr>)))"

definition fallbackReport :: "string \<Rightarrow> json" where
  "fallbackReport reportResponse =
     JObj [(''summary'', JStr reportResponse), (''recommendation'', JStr ''See full logs''),
           (''keyFindings'', JArr [])]"

definition phaseReport :: "world \<Rightarrow> AriaAgent \<Rightarrow> error + (WorkflowResult \<times> AriaAgent)" where
  "phaseReport w ag =
     (case reportLLM w of
        Inl err \<Rightarrow> Inl err
      | Inr reportResponse \<Rightarrow>
          (let report = (case parsed reportResponse of
                           Some j \<Rightarrow> j
                         | None \<Rightarrow> fallbackReport (responseText reportResponse))
           in case getProp (Some report) ''summary'' of
                Inl err \<Rightarrow> Inl err
              | Inr sm \<Rightarrow>
                  (case getProp (Some report) ''recommendation'' of
                     Inl err \<Rightarrow> Inl err
                   | Inr rc \<Rightarrow>
                       Inr (\<lparr> summary = sm, recommendation = rc,
                              result_receipts = receipts (logger (toolExecutor ag)) \<rparr>,
                            pushStep ag
                              \<lparr> stepId = ''report'', stepType = Report, tool = None, stepOutput = None,
                                costUSD = None, status = Success,
                                reasoning = Some (JStr ''Generated final report with audit trail''),
                                error = None \<rparr>))))"

text \<open>The statements of \<^verbatim>\<open>run\<close> under the comment \<^verbatim>\<open>Finalize\<close>.\<close>

definition finalize :: "AriaAgent \<Rightarrow> WorkflowResult \<Rightarrow> AriaAgent" where
  "finalize ag res =
     ag \<lparr>currentRun := (currentRun ag)
           \<lparr> runStatus := RunCompleted,
             result := Some res,
             totalCostUSD := totalSpentUSD (receipts (logger (toolExecutor ag))),
             budgetRemainingUSD := budgetUSD (currentRun ag)
                                     - totalSpentUSD (receipts (logger (toolExecutor ag))) \<rparr>\<rparr>"

text \<open>The body of the \<^verbatim>\<open>try\<close> block of \<^verbatim>\<open>run\<close>: \<open>Inl\<close> carries the exception together
  with the agent as it was when the exception was thrown.\<close>

definition workflow :: "numfmt \<Rightarrow> world \<Rightarrow> AriaAgent \<Rightarrow> (error \<times> AriaAgent) + AriaAgent" where
  "workflow F w ag0 =
     (case phaseDiscover F w ag0 of
        Inl err \<Rightarrow> Inl (err, ag0)
      | Inr ag1 \<Rightarrow>
     (case phasePlan F w ag1 of
        Inl err \<Rightarrow> Inl (err, ag1)
      | Inr p \<Rightarrow>
     (case phaseAuthorize F w (fst p) (snd p) of
        Inl err \<Rightarrow> Inl (err, snd p)
      | Inr m \<Rightarrow>
     (case phaseExecute F w (fst p) (snd m) of
        Inl ea \<Rightarrow> Inl ea
      | Inr ex \<Rightarrow>
     (case phaseDecide w (fst ex) of
        Inl err \<Rightarrow> Inl (err, fst ex)
      | Inr d \<Rightarrow>
     (case getProp (Some (fst d)) ''action'' of
        Inl err \<Rightarrow> Inl (err, snd d)
      | Inr act \<Rightarrow>
     (case (if truthy act then phaseTradeExecute F w (fst d) (snd d) else Inr (snd d)) of
        Inl err \<Rightarrow> Inl (err, snd d)
      | Inr ag6 \<Rightarrow>
     (case phaseReport w ag6 of
        Inl err \<Rightarrow> Inl (err, ag6)
      | Inr r \<Rightarrow> Inr (finalize (snd r) (fst r))))))))))"

text \<open>\<^verbatim>\<open>run\<close>: the \<^verbatim>\<open>catch\<close> block marks the run as failed and returns it.\<close>

definition run :: "numfmt \<Rightarrow> ToolExecutor \<Rightarrow> string \<Rightarrow> real \<Rightarrow> world \<Rightarrow> AriaAgent" where
  "run F x obj budget w =
     (case workflow F w (startRun x obj budget) of
        Inl ea \<Rightarrow> (snd ea) \<lparr>currentRun := (currentRun (snd ea)) \<lparr>runStatus := RunFailed\<rparr>\<rparr>
      | Inr ag \<Rightarrow> ag)"

subsection \<open>The shape the planning prompt asks for\<close>

text \<open>
  The prompt of \<^verbatim>\<open>phasePlan\<close> asks for a JSON object with a member \<^verbatim>\<open>plan\<close>, an array
  with one object per step. A parsed response is of the expected structure if it is at
  least that.
\<close>

fun isObject :: "json \<Rightarrow> bool" where
  "isObject (JObj kvs) = True"
| "isObject v = False"

definition isExpectedPlan :: "json option \<Rightarrow> bool" where
  "isExpectedPlan p =
     (case p of
        Some (JObj kvs) \<Rightarrow>
          (case map_of (rev kvs) ''plan'' of
             Some (JArr xs) \<Rightarrow> list_all isObject xs
           | _ \<Rightarrow> False)
      | _ \<Rightarrow> False)"

section \<open>Concrete data for evaluation\<close>

text \<open>The catalogue \<^verbatim>\<open>TOOLS\<close> that the merchant server of the repository serves.\<close>

definition TOOLS :: "PaidTool list" where
  "TOOLS =
     [\<lparr>tool_id = ''market-data'', tool_name = ''Real-Time Market Data'', endpoint = ''/api/v1/market-data'',
        priceUSD = 0.01, tool_category = ''market-data''\<rparr>,
      \<lparr>tool_id = ''sentiment'', tool_name = ''AI Sentiment Analysis'', endpoint = ''/api/v1/sentiment'',
        priceUSD = 0.05, tool_category = ''sentiment''\<rparr>,
      \<lparr>tool_id = ''route-optimizer'', tool_name = ''DEX Route Optimizer'', endpoint = ''/api/v1/route'',
        priceUSD = 0.02, tool_category = ''routing''\<rparr>,
      \<lparr>tool_id = ''trade-execute'', tool_name = ''Trade Execution'', endpoint = ''/api/v1/execute'',
        priceUSD = 0.10, tool_category = ''execution''\<rparr>,
      \<lparr>tool_id = ''portfolio-analytics'', tool_name = ''Portfolio Analytics'', endpoint = ''/api/v1/analytics'',
        priceUSD = 0.03, tool_category = ''analytics''\<rparr>,
      \<lparr>tool_id = ''web-search'', tool_name = ''Web Search'', endpoint = ''/api/v1/search'',
        priceUSD = 0.02, tool_category = ''market-data''\<rparr>]"

text \<open>An executor that has discovered \<open>TOOLS\<close>, with the default policy and nothing
  spent or logged yet; and the one a new agent starts with, before discovery.\<close>

definition readyExecutor :: ToolExecutor where
  "readyExecutor = \<lparr>toolRegistry = TOOLS, riskEngine = newRiskEngine DEFAULT_POLICY, logger = newAuditLogger\<rparr>"

definition newExecutor :: ToolExecutor where
  "newExecutor = \<lparr>toolRegistry = [], riskEngine = newRiskEngine DEFAULT_POLICY, logger = newAuditLogger\<rparr>"

definition plannedCall :: "string \<Rightarrow> json" where
  "plannedCall t = JObj [(''tool'', JStr t), (''params'', JObj []), (''reasoning'', JStr ''planned'')]"

definition planOf :: "string list \<Rightarrow> json" where
  "planOf ts = JObj [(''plan'', JArr (map plannedCall ts)), (''estimatedCostUSD'', JNum 0.13),
                     (''reasoning'', JStr ''research'')]"

text \<open>A call that is assessed at clock reading \<open>t\<close> and whose paid request succeeds and
  settles 200 ms later; and one whose request throws.\<close>

definition paidCall :: "real \<Rightarrow> callEnv" where
  "paidCall t = \<lparr>uuid = ''step'', assessedAt = t, outcome = FetchOk (JObj []), costEstimate = None,
                  settlementSuccess = Some True, recordedAt = t + 200\<rparr>"

definition failingCall :: "real \<Rightarrow> string \<Rightarrow> callEnv" where
  "failingCall t msg = \<lparr>uuid = ''step'', assessedAt = t, outcome = FetchThrows msg, costEstimate = None,
                         settlementSuccess = None, recordedAt = t + 200\<rparr>"

text \<open>
  A world in which the merchant serves \<open>TOOLS\<close>, the model answers the planning prompt
  with the given response and the other prompts with plain prose, no mandate is obtained,
  and the \<open>i\<close>-th tool call starts \<open>gap\<close> ms after the previous one and is paid.
\<close>

definition worldWith :: "llmResponse \<Rightarrow> real \<Rightarrow> world" where
  "worldWith planResponse gap =
     \<lparr> discovered = Inr TOOLS,
       planLLM = Inr planResponse,
       mandateError = Some ''fetch failed'',
       execEnvs = (\<lambda>i. paidCall (10000 + gap * real i)),
       decideLLM = Inr \<lparr>responseText = ''Hold for now.'', parsed = None\<rparr>,
       tradeEnv = paidCall 90000,
       reportLLM = Inr \<lparr>responseText = ''Done.'', parsed = None\<rparr> \<rparr>"

text \<open>A planning response whose text parses to the plan over the given tools, and one
  that is prose, on which \<^verbatim>\<open>JSON.parse\<close> throws.\<close>

definition planResponse :: "string list \<Rightarrow> llmResponse" where
  "planResponse ts = \<lparr>responseText = ''(the plan as JSON text)'', parsed = Some (planOf ts)\<rparr>"

definition proseResponse :: llmResponse where
  "proseResponse = \<lparr>responseText = ''I could not produce a plan.'', parsed = None\<rparr>"

text \<open>The world of \<open>worldWith\<close> with 2 s between the calls, in which the request of the
  second tool call throws.\<close>

definition secondCallFails :: "llmResponse \<Rightarrow> world" where
  "secondCallFails resp =
     (worldWith resp 2000)
       \<lparr>execEnvs := (\<lambda>i. if i = 1 then failingCall 12000 ''Tool call failed: 500 Internal Server Error''
                          else paidCall (10000 + 2000 * real i))\<rparr>"

section \<open>Evaluation rules\<close>

text \<open>
  The defining equations that a concrete evaluation of the risk engine, of the executor
  and of a whole run unfolds.
\<close>

lemmas risk_eval = assess_def assessTool_def runChecks_def checkDaily_def checkPerTx_def checkCooldown_def
  checkAllowed_def checkSlippage_def costTier_def truthyField_def truthySlippage_def newRiskEngine_def
  DEFAULT_POLICY_def recordAction_def js_div_def hash_fmt_def

lemmas exec_eval = executeTool_def findTool_def TOOLS_def readyExecutor_def newExecutor_def plannedCall_def
  planOf_def paidCall_def failingCall_def worldWith_def logRiskAssessment_def logPayment_def newAuditLogger_def
  planSteps_def planToolIds_def phaseExecute_def startRun_def totalSpentUSD_def settledSpentUSD_def stepCost_def
  proseResponse_def planResponse_def

lemmas run_eval = run_def workflow_def phaseDiscover_def phasePlan_def phaseAuthorize_def phaseExecute_def
  phaseDecide_def phaseTradeExecute_def phaseReport_def finalize_def pushStep_def proseResponse_def
  planResponse_def secondCallFails_def fallbackPlan_def fallbackDecision_def fallbackReport_def
  callToFixed_def estimateWorkflowCost_def orElse_def

section \<open>Properties of the risk engine\<close>

subsection \<open>When the list of violations stays empty\<close>









subsection \<open>Cumulative spend\<close>







subsection \<open>The approved flag and the reason\<close>



subsection \<open>The risk tier after several violations\<close>

text \<open>
  Once the per-transaction check has fired, no later statement changes the tier: the
  allowlist checks assign \<^verbatim>\<open>high\<close> again, the slippage check and the cost tiers apply
  to the tier \<^verbatim>\<open>low\<close> only.
\<close>

lemma checkCooldown_snd: "snd (checkCooldown F e now s) = snd s"
  by (simp add: checkCooldown_def Let_def)

lemma checkAllowed_High: "snd s = High \<Longrightarrow> snd (checkAllowed w v al s) = High"
  by (simp add: checkAllowed_def split: option.splits)

lemma checkSlippage_High: "snd s = High \<Longrightarrow> snd (checkSlippage F e v s) = High"
  by (simp add: checkSlippage_def split: option.splits)

lemma checkPerTx_High: "c > perTransactionLimitUSD (policy e) \<Longrightarrow> snd (checkPerTx F e c s) = High"
  by (simp add: checkPerTx_def)

lemma per_transaction_violation_gives_high:
  assumes "c > perTransactionLimitUSD (policy e)"
  shows "riskLevel (assess F e now act c md) = High"
proof -
  have "snd (runChecks F e now c md) = High"
    unfolding runChecks_def
    by (intro checkSlippage_High checkAllowed_High) (simp add: checkCooldown_snd checkPerTx_High[OF assms])
  then show ?thesis
    by (simp add: assess_def Let_def costTier_def)
qed

text \<open>
  Claim C3 says that a per-transaction or allowlist violation raises the tier to
  \<^verbatim>\<open>high\<close> only if it is not \<^verbatim>\<open>critical\<close> already. The source assigns
  \<^verbatim>\<open>riskLevel = 'high'\<close> without looking at the tier, unlike its slippage check, which
  keeps a tier that is not \<^verbatim>\<open>low\<close>. Under the default policy a cost of 51 exceeds the
  daily limit (tier \<^verbatim>\<open>critical\<close>) and the per-transaction limit; both violations are
  reported and the returned tier is \<^verbatim>\<open>high\<close>.
\<close>

theorem per_transaction_check_overwrites_critical:
  "dailySpent (newRiskEngine DEFAULT_POLICY) + 51 > dailyLimitUSD (policy (newRiskEngine DEFAULT_POLICY))
   \<and> 51 > perTransactionLimitUSD (policy (newRiskEngine DEFAULT_POLICY))
   \<and> riskLevel (assess hash_fmt (newRiskEngine DEFAULT_POLICY) 1000 ''tool:swap'' 51 None) = High
   \<and> length (policyViolations (assess hash_fmt (newRiskEngine DEFAULT_POLICY) 1000 ''tool:swap'' 51 None)) = 2"
  by (simp add: risk_eval Let_def)

subsection \<open>Dependence on the clock\<close>

text \<open>
  Claim C6 says that the assessment depends on the policy, the spend, the time of the
  last action, the cost and the metadata only. The cooldown check reads \<^verbatim>\<open>Date.now()\<close>:
  after an approved action at clock reading 1000, the same call is blocked at reading 1500
  and approved at reading 3000.
\<close>

theorem assess_depends_on_clock:
  "approved (assess hash_fmt (recordAction (newRiskEngine DEFAULT_POLICY) 1000 ''tool:market-data'' 0.01 True)
              1500 ''tool:sentiment'' 0.05 None) = False
   \<and> approved (assess hash_fmt (recordAction (newRiskEngine DEFAULT_POLICY) 1000 ''tool:market-data'' 0.01 True)
              3000 ''tool:sentiment'' 0.05 None) = True"
  by (simp add: risk_eval Let_def)

lemma checkCooldown_clear:
  "\<not> (t - lastActionTimestamp e < cooldownMs (policy e) \<and> lastActionTimestamp e > 0)
   \<Longrightarrow> checkCooldown F e t s = s"
  unfolding checkCooldown_def Let_def by (simp only: if_False)

lemma checkCooldown_same_state:
  "policy e2 = policy e1 \<Longrightarrow> lastActionTimestamp e2 = lastActionTimestamp e1
   \<Longrightarrow> checkCooldown F e2 t s = checkCooldown F e1 t s"
  unfolding checkCooldown_def by (simp only:)

lemma runChecks_same_state:
  assumes "policy e2 = policy e1" and "dailySpent e2 = dailySpent e1"
    and "\<And>s. checkCooldown F e2 t2 s = checkCooldown F e1 t1 s"
  shows "runChecks F e2 t2 c md = runChecks F e1 t1 c md"
proof -
  have d: "checkDaily F e2 c s = checkDaily F e1 c s" for s
    unfolding checkDaily_def assms(1) assms(2) by (rule refl)
  have p: "checkPerTx F e2 c s = checkPerTx F e1 c s" for s
    unfolding checkPerTx_def assms(1) by (rule refl)
  have sl: "checkSlippage F e2 v s = checkSlippage F e1 v s" for v s
    unfolding checkSlippage_def assms(1) by (rule refl)
  show ?thesis
    unfolding runChecks_def by (simp only: d p sl assms(1) assms(3))
qed

lemma assess_same_state:
  assumes "policy e2 = policy e1" and "dailySpent e2 = dailySpent e1"
    and "runChecks F e2 t2 c md = runChecks F e1 t1 c md"
  shows "assess F e2 t2 act c md = assess F e1 t1 act c md"
  unfolding assess_def costTier_def by (simp only: assms)

text \<open>
  Claim C6, amended. The assessment is a function of the policy, the spend, the time of
  the last action, the clock reading, the action, the cost and the metadata, and it reads
  no other part of the engine (the action log may differ). The clock matters through the
  cooldown check only: two calls with the same other inputs return the same assessment if
  they are made at the same clock reading, or if at both readings the cooldown check does
  not fire (no earlier approved action, or the cooldown has elapsed).
\<close>

theorem assess_same_outside_cooldown:
  "policy e2 = policy e1 \<and> dailySpent e2 = dailySpent e1 \<and> lastActionTimestamp e2 = lastActionTimestamp e1
   \<and> (t1 = t2 \<or>
        \<not> (t1 - lastActionTimestamp e1 < cooldownMs (policy e1) \<and> lastActionTimestamp e1 > 0)
      \<and> \<not> (t2 - lastActionTimestamp e1 < cooldownMs (policy e1) \<and> lastActionTimestamp e1 > 0))
   \<longrightarrow> assess F e1 t1 act c md = assess F e2 t2 act c md"
proof (intro impI, elim conjE)
  assume pol: "policy e2 = policy e1" and sp: "dailySpent e2 = dailySpent e1"
    and la: "lastActionTimestamp e2 = lastActionTimestamp e1"
    and clk: "t1 = t2 \<or>
        \<not> (t1 - lastActionTimestamp e1 < cooldownMs (policy e1) \<and> lastActionTimestamp e1 > 0)
      \<and> \<not> (t2 - lastActionTimestamp e1 < cooldownMs (policy e1) \<and> lastActionTimestamp e1 > 0)"
  have cd: "checkCooldown F e2 t2 s = checkCooldown F e1 t1 s" for s
  proof -
    from clk show ?thesis
    proof
      assume "t1 = t2"
      then show ?thesis using checkCooldown_same_state[OF pol la] by simp
    next
      assume clear: "\<not> (t1 - lastActionTimestamp e1 < cooldownMs (policy e1) \<and> lastActionTimestamp e1 > 0)
      \<and> \<not> (t2 - lastActionTimestamp e1 < cooldownMs (policy e1) \<and> lastActionTimestamp e1 > 0)"
      then have "checkCooldown F e1 t1 s = s" and "checkCooldown F e1 t2 s = s"
        using checkCooldown_clear by blast+
      then show ?thesis using checkCooldown_same_state[OF pol la] by simp
    qed
  qed
  show "assess F e1 t1 act c md = assess F e2 t2 act c md"
    using assess_same_state[OF pol sp runChecks_same_state[OF pol sp cd]] by simp
qed

text \<open>
  The theorem after an approved action at clock reading 1000, at the readings 2500 and
  9000.
\<close>

theorem assess_same_outside_cooldown_witness:
  "\<not> (2500 - lastActionTimestamp (recordAction (newRiskEngine DEFAULT_POLICY) 1000 ''tool:market-data'' 0.01 True)
          < cooldownMs (policy (recordAction (newRiskEngine DEFAULT_POLICY) 1000 ''tool:market-data'' 0.01 True))
        \<and> lastActionTimestamp (recordAction (newRiskEngine DEFAULT_POLICY) 1000 ''tool:market-data'' 0.01 True) > 0)
   \<and> \<not> (9000 - lastActionTimestamp (recordAction (newRiskEngine DEFAULT_POLICY) 1000 ''tool:market-data'' 0.01 True)
          < cooldownMs (policy (recordAction (newRiskEngine DEFAULT_POLICY) 1000 ''tool:market-data'' 0.01 True))
        \<and> lastActionTimestamp (recordAction (newRiskEngine DEFAULT_POLICY) 1000 ''tool:market-data'' 0.01 True) > 0)
   \<and> assess hash_fmt (recordAction (newRiskEngine DEFAULT_POLICY) 1000 ''tool:market-data'' 0.01 True)
         2500 ''tool:sentiment'' 0.05 None
     = assess hash_fmt (recordAction (newRiskEngine DEFAULT_POLICY) 1000 ''tool:market-data'' 0.01 True)
         9000 ''tool:sentiment'' 0.05 None"
proof -
  let ?e = "recordAction (newRiskEngine DEFAULT_POLICY) 1000 ''tool:market-data'' 0.01 True"
  have clear1: "\<not> (2500 - lastActionTimestamp ?e < cooldownMs (policy ?e) \<and> lastActionTimestamp ?e > 0)"
    and clear2: "\<not> (9000 - lastActionTimestamp ?e < cooldownMs (policy ?e) \<and> lastActionTimestamp ?e > 0)"
    by (simp_all add: recordAction_def newRiskEngine_def DEFAULT_POLICY_def)
  have "assess hash_fmt ?e 2500 ''tool:sentiment'' 0.05 None = assess hash_fmt ?e 9000 ''tool:sentiment'' 0.05 None"
    using assess_same_outside_cooldown[of ?e ?e 2500 9000 hash_fmt "''tool:sentiment''" "0.05" None] clear1 clear2 by blast
  with clear1 clear2 show ?thesis by (intro conjI)
qed

section \<open>Properties of the sentiment aggregation\<close>

lemma weightOf_spec: "weightOf s = spec_weight s"
  by (simp add: weightOf_def spec_weight_def weights_def)

lemma accumulate_sums:
  "accumulate sigs acc = (fst acc + spec_totalWeight sigs, snd acc + spec_weightedSum sigs)"
  by (induction sigs arbitrary: acc) (simp_all add: spec_totalWeight_def spec_weightedSum_def weightOf_spec algebra_simps)

lemma spec_totalWeight_Nil: "spec_totalWeight [] = 0"
  by (simp add: spec_totalWeight_def)

lemma totalWeight_pos_nonempty: "spec_totalWeight sigs > 0 \<Longrightarrow> real (length sigs) \<noteq> 0"
  by (cases sigs) (simp_all add: spec_totalWeight_Nil)

lemma aggregate_guarded:
  "aggregate sigs =
     (if spec_totalWeight sigs > 0
      then Some \<lparr>compositeScore = spec_weightedSum sigs / spec_totalWeight sigs,
                 compositeConfidence = spec_totalWeight sigs / real (length sigs),
                 label = labelOf (spec_weightedSum sigs / spec_totalWeight sigs)\<rparr>
      else Some \<lparr>compositeScore = 0, compositeConfidence = 0, label = ''neutral''\<rparr>)"
proof (cases "spec_totalWeight sigs > 0")
  case True
  then have "spec_totalWeight sigs \<noteq> 0" and "real (length sigs) \<noteq> 0"
    using totalWeight_pos_nonempty by auto
  with True show ?thesis
    by (simp add: aggregate_def Let_def accumulate_sums js_div_def)
next
  case False
  then show ?thesis
    by (simp add: aggregate_def Let_def accumulate_sums labelOf_def)
qed

text \<open>
  Claim C8. On the empty list of signals the aggregation returns score 0, confidence 0
  and the label \<^verbatim>\<open>neutral\<close>; and on every list it returns a value, that is, neither of
  its two divisions is ever evaluated with a zero divisor.
\<close>

theorem aggregate_empty_is_neutral:
  "aggregate [] = Some \<lparr>compositeScore = 0, compositeConfidence = 0, label = ''neutral''\<rparr>
   \<and> aggregate signals \<noteq> None"
  by (simp add: aggregate_guarded spec_totalWeight_Nil)




section \<open>Properties of the executor and of a run\<close>

subsection \<open>What a tool call returns\<close>


lemma executeTool_rejected:
  assumes "findTool (toolRegistry x) tid = Some t"
    and "\<not> approved (assessTool F (riskEngine x) t env)"
  shows "executeTool F x tid env =
     Inr ((\<lparr> stepId = uuid env, stepType = Pay, tool = tid, stepOutput = None,
              costUSD = Some (priceUSD t), status = Failed,
              reasoning = Some (JStr (reason (assessTool F (riskEngine x) t env))),
              error = Some (''Risk policy violation: ''
                            @ join ''; '' (policyViolations (assessTool F (riskEngine x) t env))) \<rparr>,
            None),
           x \<lparr>logger := logRiskAssessment (logger x) (assessTool F (riskEngine x) t env)\<rparr>)"
  using assms by (simp add: executeTool_def Let_def)





subsection \<open>The remaining budget during the Execute phase\<close>

text \<open>
  An iteration of the loop whose call the risk engine rejects logs no receipt and adds
  the listed price of the tool to the total cost of the run.
\<close>

lemma rejected_call_adds_price:
  assumes "getProp (Some planned) ''tool'' = Inr tid"
    and "findTool (toolRegistry (toolExecutor ag)) tid = Some t"
    and "\<not> approved (assessTool F (riskEngine (toolExecutor ag)) t (execEnvs w i))"
  shows "\<exists>ag' rs'. executeLoop F w i [planned] (ag, rs) = Inr (ag', rs')
           \<and> totalCostUSD (currentRun ag') = totalCostUSD (currentRun ag) + priceUSD t
           \<and> budgetRemainingUSD (currentRun ag')
                = budgetUSD (currentRun ag) - (totalCostUSD (currentRun ag) + priceUSD t)
           \<and> receipts (logger (toolExecutor ag')) = receipts (logger (toolExecutor ag))"
  using assms(1) executeTool_rejected[OF assms(2) assms(3)]
  by (simp add: Let_def stepCost_def logRiskAssessment_def)

text \<open>
  Claim C4 says that the remaining budget is the budget minus the settled receipts at
  every point of a run. The step that \<^verbatim>\<open>executeTool\<close> returns for a rejected call
  carries the listed price as \<^verbatim>\<open>costUSD\<close>, and \<^verbatim>\<open>phaseExecute\<close> adds the
  \<^verbatim>\<open>costUSD\<close> of every step to the total. Under the default policy, with the second
  call assessed 500 ms after the first was recorded, the second call is blocked by the
  cooldown: one receipt of 0.01 is logged, the budget of 1 minus the settled receipts is
  0.99, and the remaining budget of the run is 0.94.
\<close>

theorem rejected_step_lowers_remaining_budget:
  "(case phaseExecute hash_fmt (worldWith proseResponse 700)
           (planOf [''market-data'', ''sentiment'']) (startRun readyExecutor ''research'' 1) of
      Inl ea \<Rightarrow> None
    | Inr res \<Rightarrow>
        Some (map status (steps (currentRun (fst res))),
              map amountUSD (receipts (logger (toolExecutor (fst res)))),
              budgetUSD (currentRun (fst res)) - settledSpentUSD (receipts (logger (toolExecutor (fst res)))),
              budgetRemainingUSD (currentRun (fst res))))
   = Some ([Success, Failed], [0.01], 0.99, 0.94)"
  by (simp add: risk_eval exec_eval Let_def)

subsection \<open>A payment that throws\<close>



subsection \<open>A planning response that is not a plan\<close>

text \<open>
  Claim C9 says that a planning response which cannot be parsed as the expected
  structure never makes the Plan phase raise. The text \<^verbatim>\<open>null\<close> is valid JSON and not
  of the expected structure: \<^verbatim>\<open>JSON.parse\<close> returns \<^verbatim>\<open>null\<close>, the \<^verbatim>\<open>catch\<close> block is
  not entered, reading \<^verbatim>\<open>plan.estimatedCostUSD\<close> throws a \<^verbatim>\<open>TypeError\<close>, and the run
  ends as failed.
\<close>

theorem plan_null_response_raises:
  "\<not> isExpectedPlan (parsed \<lparr>responseText = ''null'', parsed = Some JNull\<rparr>)
   \<and> phasePlan hash_fmt (worldWith \<lparr>responseText = ''null'', parsed = Some JNull\<rparr> 2000)
        (startRun readyExecutor ''research'' 1) = Inl TypeError
   \<and> runStatus (currentRun (run hash_fmt newExecutor ''research'' 1
        (worldWith \<lparr>responseText = ''null'', parsed = Some JNull\<rparr> 2000))) = RunFailed"
  by (simp add: isExpectedPlan_def phasePlan_def worldWith_def run_def workflow_def phaseDiscover_def)

text \<open>
  Claim C9, amended. If \<^verbatim>\<open>JSON.parse\<close> throws on the planning response, the Plan phase
  does not raise: it returns the plan with no step, estimated cost 0 and the raw text as
  its reasoning, records a successful step with that reasoning, and leaves the status of
  the run alone; the Authorize phase then returns, and the Execute phase returns without
  having executed anything.
\<close>

theorem plan_parse_failure_degrades:
  assumes "planLLM w = Inr r" and "parsed r = None"
  shows "\<exists>ag2 m ag3.
           phasePlan F w ag = Inr (fallbackPlan (responseText r), ag2)
         \<and> planSteps (fallbackPlan (responseText r)) = Inr []
         \<and> getProp (Some (fallbackPlan (responseText r))) ''estimatedCostUSD'' = Inr (Some (JNum 0))
         \<and> getProp (Some (fallbackPlan (responseText r))) ''reasoning'' = Inr (Some (JStr (responseText r)))
         \<and> steps (currentRun ag2) = steps (currentRun ag) @
              [\<lparr> stepId = ''plan'', stepType = Reason, tool = None,
                  stepOutput = Some (fallbackPlan (responseText r)), costUSD = Some 0,
                  status = Success, reasoning = Some (JStr (responseText r)), error = None \<rparr>]
         \<and> runStatus (currentRun ag2) = runStatus (currentRun ag)
         \<and> phaseAuthorize F w (fallbackPlan (responseText r)) ag2 = Inr (m, ag3)
         \<and> phaseExecute F w (fallbackPlan (responseText r)) ag3 = Inr (ag3, [])"
proof -
  let ?plan = "fallbackPlan (responseText r)"
  let ?ag2 = "pushStep ag \<lparr> stepId = ''plan'', stepType = Reason, tool = None,
                  stepOutput = Some ?plan, costUSD = Some 0,
                  status = Success, reasoning = Some (JStr (responseText r)), error = None \<rparr>"
  have ec: "getProp (Some ?plan) ''estimatedCostUSD'' = Inr (Some (JNum 0))"
    by (simp add: fallbackPlan_def)
  have rs: "getProp (Some ?plan) ''reasoning'' = Inr (Some (JStr (responseText r)))"
    by (simp add: fallbackPlan_def)
  have ps: "planSteps ?plan = Inr []"
    by (simp add: planSteps_def fallbackPlan_def)
  have ids: "planToolIds ?plan = Inr []"
    by (simp add: planToolIds_def ps)
  have plan: "phasePlan F w ag = Inr (?plan, ?ag2)"
    by (simp add: phasePlan_def assms ec rs ids callToFixed_def estimateWorkflowCost_def Let_def)
  have "\<exists>m ag3. phaseAuthorize F w ?plan ?ag2 = Inr (m, ag3)"
    by (cases "mandateError w") (auto simp add: phaseAuthorize_def ec ids orElse_def)
  then obtain m ag3 where auth: "phaseAuthorize F w ?plan ?ag2 = Inr (m, ag3)" by blast
  have exec: "phaseExecute F w ?plan ag3 = Inr (ag3, [])"
    by (simp add: phaseExecute_def ps)
  have st: "steps (currentRun ?ag2) = steps (currentRun ag) @
              [\<lparr> stepId = ''plan'', stepType = Reason, tool = None,
                  stepOutput = Some ?plan, costUSD = Some 0,
                  status = Success, reasoning = Some (JStr (responseText r)), error = None \<rparr>]"
    and rn: "runStatus (currentRun ?ag2) = runStatus (currentRun ag)"
    by (simp_all add: pushStep_def)
  from plan ps ec rs st rn auth exec show ?thesis by blast
qed

text \<open>
  The theorem on a response in prose; the whole run with this response completes with
  the steps discover, plan, authorize, decide and report.
\<close>

theorem plan_parse_failure_degrades_witness:
  "planLLM (worldWith proseResponse 2000) = Inr proseResponse
   \<and> parsed proseResponse = None
   \<and> (\<exists>ag2 m ag3.
         phasePlan hash_fmt (worldWith proseResponse 2000) (startRun readyExecutor ''research'' 1)
           = Inr (fallbackPlan ''I could not produce a plan.'', ag2)
       \<and> map stepId (steps (currentRun ag2)) = [''plan'']
       \<and> map reasoning (steps (currentRun ag2)) = [Some (JStr ''I could not produce a plan.'')]
       \<and> phaseAuthorize hash_fmt (worldWith proseResponse 2000) (fallbackPlan ''I could not produce a plan.'') ag2
           = Inr (m, ag3)
       \<and> phaseExecute hash_fmt (worldWith proseResponse 2000) (fallbackPlan ''I could not produce a plan.'') ag3
           = Inr (ag3, []))
   \<and> runStatus (currentRun (run hash_fmt newExecutor ''research'' 1 (worldWith proseResponse 2000)))
       = RunCompleted
   \<and> map stepId (steps (currentRun (run hash_fmt newExecutor ''research'' 1 (worldWith proseResponse 2000))))
       = [''discover'', ''plan'', ''authorize'', ''decide'', ''report'']"
proof -
  let ?W = "worldWith proseResponse 2000"
  let ?ag = "startRun readyExecutor ''research'' 1"
  have llm: "planLLM ?W = Inr proseResponse" by (simp add: worldWith_def)
  have np: "parsed proseResponse = None" by (simp add: proseResponse_def)
  have rtext: "responseText proseResponse = ''I could not produce a plan.''" by (simp add: proseResponse_def)
  from plan_parse_failure_degrades[OF llm np, of hash_fmt ?ag]
  obtain ag2 m ag3 where
    r: "phasePlan hash_fmt ?W ?ag = Inr (fallbackPlan (responseText proseResponse), ag2)"
       "steps (currentRun ag2) = steps (currentRun ?ag) @
              [\<lparr> stepId = ''plan'', stepType = Reason, tool = None,
                  stepOutput = Some (fallbackPlan (responseText proseResponse)), costUSD = Some 0,
                  status = Success, reasoning = Some (JStr (responseText proseResponse)), error = None \<rparr>]"
       "phaseAuthorize hash_fmt ?W (fallbackPlan (responseText proseResponse)) ag2 = Inr (m, ag3)"
       "phaseExecute hash_fmt ?W (fallbackPlan (responseText proseResponse)) ag3 = Inr (ag3, [])"
    by blast
  have a: "map stepId (steps (currentRun ag2)) = [''plan'']"
    and b: "map reasoning (steps (currentRun ag2)) = [Some (JStr ''I could not produce a plan.'')]"
    using r(2) by (simp_all add: startRun_def rtext)
  have whole: "runStatus (currentRun (run hash_fmt newExecutor ''research'' 1 ?W)) = RunCompleted
     \<and> map stepId (steps (currentRun (run hash_fmt newExecutor ''research'' 1 ?W)))
       = [''discover'', ''plan'', ''authorize'', ''decide'', ''report'']"
    by (simp add: run_eval exec_eval Let_def)
  have ex: "\<exists>ag2 m ag3.
         phasePlan hash_fmt ?W ?ag = Inr (fallbackPlan ''I could not produce a plan.'', ag2)
       \<and> map stepId (steps (currentRun ag2)) = [''plan'']
       \<and> map reasoning (steps (currentRun ag2)) = [Some (JStr ''I could not produce a plan.'')]
       \<and> phaseAuthorize hash_fmt ?W (fallbackPlan ''I could not produce a plan.'') ag2 = Inr (m, ag3)
       \<and> phaseExecute hash_fmt ?W (fallbackPlan ''I could not produce a plan.'') ag3 = Inr (ag3, [])"
    using r(1,3,4) a b unfolding rtext
    by (intro exI[of _ ag2] exI[of _ m] exI[of _ ag3] conjI)
  show ?thesis
    by (intro conjI) (rule llm np ex whole[THEN conjunct1] whole[THEN conjunct2])+
qed

subsection \<open>A planned tool that is not registered\<close>








end
